theory Spec2Isabelle
  imports Complex_Main "HOL-Library.Sublist"
begin

section \<open>The JavaScript values the components compute with\<close>

text \<open>
  The components are React function components; the logic the specification describes sits in
  their inner functions (\<open>formatDate\<close>, \<open>getObservationDisplay\<close>, \<open>createObservation\<close>,
  \<open>createComposition\<close>, \<open>handleSubmit\<close>, \<open>getMedicationDisplay\<close>) and in the seed script
  \<open>scripts/insert-john-doe-history.js\<close>. Strings are character lists. An optional property
  of a JSON object is an \<open>option\<close>: \<open>None\<close> is JavaScript's \<open>undefined\<close>.
\<close>

subsection \<open>Strings\<close>

definition isWhiteSpace :: "char \<Rightarrow> bool" where
  \<comment> \<open>WhiteSpace and LineTerminator of ECMAScript, as far as one-byte characters go:
      TAB, LF, VT, FF, CR, SP, NBSP.\<close>
  "isWhiteSpace c \<longleftrightarrow> c \<in> set [CHR 0x09, CHR 0x0A, CHR 0x0B, CHR 0x0C, CHR 0x0D, CHR 0x20, CHR 0xA0]"

definition trimStart :: "string \<Rightarrow> string" where
  "trimStart s = dropWhile isWhiteSpace s"

definition trim :: "string \<Rightarrow> string" where
  \<comment> \<open>\<open>String.prototype.trim\<close>\<close>
  "trim s = rev (dropWhile isWhiteSpace (rev (dropWhile isWhiteSpace s)))"




fun join :: "string \<Rightarrow> string list \<Rightarrow> string" where
  \<comment> \<open>\<open>xs.join(sep)\<close>\<close>
  "join sep [] = []"
| "join sep [x] = x"
| "join sep (x # y # ys) = x @ sep @ join sep (y # ys)"

definition truthy :: "string option \<Rightarrow> bool" where
  \<comment> \<open>a string-valued property in a condition: \<open>undefined\<close> and \<open>''\<close> are falsy\<close>
  "truthy v = (case v of None \<Rightarrow> False | Some s \<Rightarrow> s \<noteq> [])"

definition orElse :: "string option \<Rightarrow> string option \<Rightarrow> string option" where
  \<comment> \<open>\<open>a || b\<close> on optional strings\<close>
  "orElse a b = (if truthy a then a else b)"

definition orDefault :: "string option \<Rightarrow> string \<Rightarrow> string" where
  \<comment> \<open>\<open>a || 'literal'\<close>\<close>
  "orDefault a d = (case a of None \<Rightarrow> d | Some s \<Rightarrow> if s = [] then d else s)"

definition tplString :: "string option \<Rightarrow> string" where
  \<comment> \<open>an optional string spliced into a template literal\<close>
  "tplString v = (case v of None \<Rightarrow> ''undefined'' | Some s \<Rightarrow> s)"

subsection \<open>Decimal digits\<close>

definition isDigit :: "char \<Rightarrow> bool" where
  "isDigit c \<longleftrightarrow> c \<in> set ''0123456789''"

definition digitVal :: "char \<Rightarrow> nat" where
  "digitVal c = of_char c - 48"

definition digitChar :: "nat \<Rightarrow> char" where
  "digitChar d = ''0123456789'' ! d"

definition natOfDigits :: "string \<Rightarrow> nat" where
  "natOfDigits ds = foldl (\<lambda>a c. 10 * a + digitVal c) 0 ds"

fun digitsOf :: "nat \<Rightarrow> string" where
  \<comment> \<open>the decimal numeral of a natural number, without leading zeros\<close>
  "digitsOf n = (if n < 10 then [digitChar n] else digitsOf (n div 10) @ [digitChar (n mod 10)])"

declare digitsOf.simps [simp del]

subsection \<open>Numbers\<close>

text \<open>
  A JavaScript number is kept as the decimal it denotes, in the shape the language's own
  number-to-string algorithm works with: a sign, the significant digits \<open>ds\<close> (no leading and
  no trailing zero) and the position \<open>n\<close> of the decimal point, so that the value is
  \<open>0.ds \<times> 10\<^sup>n\<close>. The rounding of a literal to the nearest binary64 value is not part of the
  model, and the two zeros are one value: none of the operations used here (\<open>isNaN\<close>,
  \<open>< 0\<close>, conversion to a string) tells them apart.
\<close>

datatype jsnum = NaN | Infinity bool | Zero | Num bool string int

definition canonical :: "jsnum \<Rightarrow> bool" where
  "canonical v = (case v of
       Num neg ds n \<Rightarrow> ds \<noteq> [] \<and> list_all isDigit ds \<and> hd ds \<noteq> CHR ''0'' \<and> last ds \<noteq> CHR ''0''
     | _ \<Rightarrow> True)"

definition isNaN :: "jsnum \<Rightarrow> bool" where
  "isNaN v = (v = NaN)"

definition ltZero :: "jsnum \<Rightarrow> bool" where
  \<comment> \<open>\<open>v < 0\<close>\<close>
  "ltZero v = (case v of NaN \<Rightarrow> False | Infinity neg \<Rightarrow> neg | Zero \<Rightarrow> False | Num neg ds n \<Rightarrow> neg)"


definition mkNum :: "bool \<Rightarrow> string \<Rightarrow> int \<Rightarrow> jsnum" where
  \<comment> \<open>the number \<open>0.ds \<times> 10\<^sup>n\<close> for any digit string: leading and trailing zeros are dropped\<close>
  "mkNum neg ds n =
     (let lead = takeWhile (\<lambda>c. c = CHR ''0'') ds;
          sig = rev (dropWhile (\<lambda>c. c = CHR ''0'') (rev (dropWhile (\<lambda>c. c = CHR ''0'') ds)))
      in if sig = [] then Zero else Num neg sig (n - int (length lead)))"

definition signPart :: "string \<Rightarrow> bool \<times> string" where
  \<comment> \<open>an optional \<open>+\<close> or \<open>-\<close>\<close>
  "signPart s = (case s of
       [] \<Rightarrow> (False, [])
     | c # r \<Rightarrow> if c = CHR ''-'' then (True, r) else if c = CHR ''+'' then (False, r) else (False, s))"

definition exponentPart :: "string \<Rightarrow> int" where
  \<comment> \<open>ExponentPart: \<open>e\<close> or \<open>E\<close>, a SignedInteger; anything else (also \<open>e\<close> with no digit after
      it) is not part of the literal and counts as exponent 0\<close>
  "exponentPart s = (case s of
       [] \<Rightarrow> 0
     | c # r \<Rightarrow>
         if c = CHR ''e'' \<or> c = CHR ''E'' then
           (let (neg, r') = signPart r; ed = takeWhile isDigit r'
            in if ed = [] then 0 else if neg then - int (natOfDigits ed) else int (natOfDigits ed))
         else 0)"

definition parseFloat :: "string \<Rightarrow> jsnum" where
  \<comment> \<open>the global \<open>parseFloat\<close>: leading white space is skipped, the longest prefix that is a
      StrDecimalLiteral is read, whatever follows it is ignored, and no such prefix gives NaN\<close>
  "parseFloat s =
     (let (neg, u) = signPart (trimStart s)
      in if prefix ''Infinity'' u then Infinity neg
         else
           (let ip = takeWhile isDigit u; r1 = dropWhile isDigit u;
                dot = (r1 \<noteq> [] \<and> hd r1 = CHR ''.'');
                fp = (if dot then takeWhile isDigit (tl r1) else []);
                r2 = (if dot then dropWhile isDigit (tl r1) else r1)
            in if ip = [] \<and> fp = [] then NaN
               else mkNum neg (ip @ fp) (int (length ip) + exponentPart r2)))"

definition signStr :: "bool \<Rightarrow> string" where
  "signStr neg = (if neg then ''-'' else [])"

definition numToString :: "jsnum \<Rightarrow> string" where
  \<comment> \<open>Number::toString in radix 10, with \<open>k\<close> the number of significant digits\<close>
  "numToString v = (case v of
       NaN \<Rightarrow> ''NaN''
     | Infinity neg \<Rightarrow> (if neg then ''-Infinity'' else ''Infinity'')
     | Zero \<Rightarrow> ''0''
     | Num neg ds n \<Rightarrow>
         (let k = int (length ds);
              body =
                (if k \<le> n \<and> n \<le> 21 then ds @ replicate (nat (n - k)) CHR ''0''
                 else if 0 < n \<and> n \<le> 21 then take (nat n) ds @ ''.'' @ drop (nat n) ds
                 else if - 6 < n \<and> n \<le> 0 then ''0.'' @ replicate (nat (- n)) CHR ''0'' @ ds
                 else
                   (let e = n - 1;
                        es = (if e < 0 then ''-'' else ''+'') @ digitsOf (nat \<bar>e\<bar>)
                    in if k = 1 then ds @ ''e'' @ es
                       else [hd ds] @ ''.'' @ tl ds @ ''e'' @ es))
          in signStr neg @ body))"

definition parseFloatNum :: "jsnum \<Rightarrow> jsnum" where
  \<comment> \<open>\<open>parseFloat\<close> applied to a number: the argument is converted to a string first\<close>
  "parseFloatNum v = parseFloat (numToString v)"

definition ofNat :: "nat \<Rightarrow> jsnum" where
  \<comment> \<open>a non-negative integer literal as a number\<close>
  "ofNat n = mkNum False (digitsOf n) (int (length (digitsOf n)))"


section \<open>FHIR resources, as far as the components read and write them\<close>

record coding =
  c_system :: "string option"
  c_code :: "string option"
  c_display :: "string option"

record codeableConcept =
  cc_coding :: "coding list option"
  cc_text :: "string option"

record quantity =
  q_value :: "jsnum option"
  q_unit :: "string option"
  q_system :: "string option"
  q_code :: "string option"

record reference =
  r_reference :: "string option"
  r_display :: "string option"

record component =
  comp_code :: "codeableConcept option"
  comp_valueQuantity :: "quantity option"
  comp_valueString :: "string option"
  comp_valueCodeableConcept :: "codeableConcept option"

record observation =
  obs_resourceType :: string
  obs_status :: "string option"
  obs_category :: "codeableConcept list option"
  obs_code :: "codeableConcept option"
  obs_subject :: "reference option"
  obs_effectiveDateTime :: "string option"
  obs_valueQuantity :: "quantity option"
  obs_valueString :: "string option"
  obs_valueCodeableConcept :: "codeableConcept option"
  obs_component :: "component list option"
  obs_performer :: "reference list option"

record narrative =
  n_status :: string
  n_div :: string

record sectionEntry =
  s_title :: string
  s_code :: codeableConcept
  s_text :: narrative

record composition =
  cmp_resourceType :: string
  cmp_status :: string
  cmp_type :: codeableConcept
  cmp_category :: "codeableConcept list"
  cmp_subject :: reference
  cmp_date :: string
  cmp_author :: "reference list"
  cmp_title :: string
  cmp_section :: "sectionEntry list"

record humanName =
  given :: "string list option"
  family :: "string option"

record patient =
  p_id :: "string option"
  p_name :: "humanName list option"

definition ORGANIZATION_ID :: string where
  "ORGANIZATION_ID = ''53655767''"

definition firstCoding :: "codeableConcept option \<Rightarrow> coding option" where
  \<comment> \<open>\<open>x?.coding?.[0]\<close>\<close>
  "firstCoding x = (case x of
       None \<Rightarrow> None
     | Some cc \<Rightarrow> (case cc_coding cc of None \<Rightarrow> None | Some [] \<Rightarrow> None | Some (c # _) \<Rightarrow> Some c))"

definition firstDisplay :: "codeableConcept option \<Rightarrow> string option" where
  \<comment> \<open>\<open>x?.coding?.[0]?.display\<close>\<close>
  "firstDisplay x = (case firstCoding x of None \<Rightarrow> None | Some c \<Rightarrow> c_display c)"

definition textOf :: "codeableConcept option \<Rightarrow> string option" where
  \<comment> \<open>\<open>x?.text\<close>\<close>
  "textOf x = (case x of None \<Rightarrow> None | Some cc \<Rightarrow> cc_text cc)"

definition subjectDisplay :: "patient \<Rightarrow> string" where
  \<comment> \<open>the \<open>display\<close> both forms give the subject reference:
      \<open>patient.name?.[0] ? `${given?.join(' ') || ''} ${family || ''}`.trim() : 'Unknown'\<close>\<close>
  "subjectDisplay p = (case p_name p of
       None \<Rightarrow> ''Unknown''
     | Some [] \<Rightarrow> ''Unknown''
     | Some (nm # _) \<Rightarrow>
         trim (orDefault (map_option (join '' '') (given nm)) [] @ '' '' @ orDefault (family nm) []))"

definition subjectOf :: "patient \<Rightarrow> reference" where
  "subjectOf p = \<lparr>r_reference = Some (''Patient/'' @ tplString (p_id p)), r_display = Some (subjectDisplay p)\<rparr>"

section \<open>LabValueForm.jsx: the Observation builder\<close>

record labForm =
  gfr :: string
  hemoglobin :: string
  effectiveDateTime :: string

definition createObservation ::
  "patient \<Rightarrow> labForm \<Rightarrow> string \<Rightarrow> string \<Rightarrow> jsnum \<Rightarrow> string \<Rightarrow> string \<Rightarrow> observation" where
  \<comment> \<open>\<open>createObservation(code, display, value, unit, unitSystem)\<close>; \<open>patient\<close> and \<open>formData\<close>
      are the variables of the enclosing component, and \<open>value\<close> arrives as a number\<close>
  "createObservation pat formData code display val unit unitSystem =
     \<lparr>obs_resourceType = ''Observation'',
      obs_status = Some ''final'',
      obs_category = Some
        [\<lparr>cc_coding = Some
             [\<lparr>c_system = Some ''http://terminology.hl7.org/CodeSystem/observation-category'',
               c_code = Some ''laboratory'',
               c_display = Some ''Laboratory''\<rparr>],
           cc_text = Some ''Laboratory''\<rparr>],
      obs_code = Some
        \<lparr>cc_coding = Some [\<lparr>c_system = Some ''http://loinc.org'', c_code = Some code, c_display = Some display\<rparr>],
         cc_text = Some display\<rparr>,
      obs_subject = Some (subjectOf pat),
      obs_effectiveDateTime = Some (effectiveDateTime formData),
      obs_valueQuantity = Some
        \<lparr>q_value = Some (parseFloatNum val), q_unit = Some unit, q_system = Some unitSystem, q_code = Some unit\<rparr>,
      obs_valueString = None,
      obs_valueCodeableConcept = None,
      obs_component = None,
      obs_performer = Some
        [\<lparr>r_reference = Some (''Organization/'' @ ORGANIZATION_ID), r_display = Some ''Demo General Hospital''\<rparr>]\<rparr>"

datatype submitError =
    ValidationError string   \<comment> \<open>thrown by a check of the form data, before any request\<close>
  | NetworkError string      \<comment> \<open>a rejected \<open>fetch\<close>\<close>
  | HttpError string         \<comment> \<open>thrown after a response that is not ok\<close>
  | TypeError string         \<comment> \<open>a property read on \<open>undefined\<close>\<close>


definition provided :: "string \<Rightarrow> bool" where
  \<comment> \<open>\<open>formData.x && formData.x.trim() !== ''\<close>\<close>
  "provided s \<longleftrightarrow> s \<noteq> [] \<and> trim s \<noteq> []"

definition labEntry ::
  "patient \<Rightarrow> labForm \<Rightarrow> string \<Rightarrow> string \<Rightarrow> string \<Rightarrow> string \<Rightarrow> string \<Rightarrow> string
     \<Rightarrow> submitError + observation list" where
  \<comment> \<open>one of the two \<open>if\<close> blocks of \<open>handleSubmit\<close> (lines 73-87 and 90-104): the field
      \<open>s\<close>, the text of the error, and the constants handed to \<open>createObservation\<close>\<close>
  "labEntry pat formData s err code display unit unitSystem =
     (if provided s then
        (let v = parseFloat s
         in if isNaN v \<or> ltZero v then Inl (ValidationError err)
            else Inr [createObservation pat formData code display v unit unitSystem])
      else Inr [])"

definition collectObservations :: "patient \<Rightarrow> labForm \<Rightarrow> submitError + observation list" where
  \<comment> \<open>lines 70-104 of \<open>handleSubmit\<close>: the array \<open>observations\<close> after the two blocks, or
      the error one of them throws\<close>
  "collectObservations pat formData =
     (case labEntry pat formData (gfr formData) ''GFR must be a valid positive number''
             ''33914-3'' ''Glomerular filtration rate/1.73 sq M.predicted''
             ''mL/min/1.73m2'' ''http://unitsofmeasure.org'' of
        Inl e \<Rightarrow> Inl e
      | Inr os1 \<Rightarrow>
          (case labEntry pat formData (hemoglobin formData) ''Hemoglobin must be a valid positive number''
                  ''718-7'' ''Hemoglobin [Mass/volume] in Blood''
                  ''g/dL'' ''http://unitsofmeasure.org'' of
             Inl e \<Rightarrow> Inl e
           | Inr os2 \<Rightarrow> Inr (os1 @ os2)))"

subsection \<open>The network, as the forms see it\<close>

record issue =
  diagnostics :: "string option"

record operationOutcome =
  issue :: "issue list option"

record response =
  status :: nat
  body :: "operationOutcome option"   \<comment> \<open>\<open>None\<close>: \<open>response.json()\<close> rejects\<close>

datatype fetchOutcome = Rejected string | Resolved response

definition ok :: "response \<Rightarrow> bool" where
  \<comment> \<open>\<open>response.ok\<close>: the status is in the range 200-299\<close>
  "ok r \<longleftrightarrow> 200 \<le> status r \<and> status r \<le> 299"

definition errorData :: "response \<Rightarrow> operationOutcome" where
  \<comment> \<open>\<open>await response.json().catch(() => ({}))\<close>\<close>
  "errorData r = (case body r of None \<Rightarrow> \<lparr>issue = None\<rparr> | Some d \<Rightarrow> d)"

definition firstDiagnostics :: "operationOutcome \<Rightarrow> string option" where
  \<comment> \<open>\<open>errorData.issue?.[0]?.diagnostics\<close>\<close>
  "firstDiagnostics d = (case issue d of None \<Rightarrow> None | Some [] \<Rightarrow> None | Some (i # _) \<Rightarrow> diagnostics i)"

definition statusAndDiagnostics :: "response \<Rightarrow> string" where
  \<comment> \<open>\<open>`${response.status} ${errorData.issue?.[0]?.diagnostics || ''}`\<close>\<close>
  "statusAndDiagnostics r = digitsOf (status r) @ '' '' @ orDefault (firstDiagnostics (errorData r)) []"

record 'r submission =
  requests :: "'r list"              \<comment> \<open>the bodies POSTed, in order\<close>
  failure :: "submitError option"    \<comment> \<open>the error caught, or \<open>None\<close> when \<open>setSuccess(true)\<close> is reached\<close>

fun firstRejected :: "fetchOutcome list \<Rightarrow> string option" where
  "firstRejected [] = None"
| "firstRejected (Rejected m # rs) = Some m"
| "firstRejected (Resolved r # rs) = firstRejected rs"

fun resolved :: "fetchOutcome list \<Rightarrow> response list" where
  "resolved [] = []"
| "resolved (Rejected m # rs) = resolved rs"
| "resolved (Resolved r # rs) = r # resolved rs"

fun collectErrors :: "(observation \<times> response) list \<Rightarrow> submitError + string list" where
  \<comment> \<open>the loop of lines 125-131 over \<open>results\<close>\<close>
  "collectErrors [] = Inr []"
| "collectErrors ((obs, r) # rest) =
     (if \<not> ok r then
        (case obs_code obs of
           None \<Rightarrow> Inl (TypeError ''Cannot read properties of undefined (reading 'text')'')
         | Some cc \<Rightarrow>
             (case collectErrors rest of
                Inl e \<Rightarrow> Inl e
              | Inr errs \<Rightarrow>
                  Inr ((''Failed to create '' @ tplString (cc_text cc) @ '': '' @ statusAndDiagnostics r) # errs)))
      else collectErrors rest)"

definition handleSubmitLab :: "(observation \<Rightarrow> fetchOutcome) \<Rightarrow> patient \<Rightarrow> labForm \<Rightarrow> observation submission" where
  \<comment> \<open>\<open>handleSubmit\<close> of LabValueForm. \<open>fetch\<close> answers a POST of an Observation. All requests
      are issued before any answer is looked at (\<open>Promise.all\<close>); of several rejections the
      model reports the first in request order.\<close>
  "handleSubmitLab fetch pat formData =
     (case collectObservations pat formData of
        Inl e \<Rightarrow> \<lparr>requests = [], failure = Some e\<rparr>
      | Inr observations \<Rightarrow>
          if length observations = 0 then
            \<lparr>requests = [], failure = Some (ValidationError ''Please enter at least one lab value'')\<rparr>
          else
            (let outcomes = map fetch observations
             in case firstRejected outcomes of
                  Some m \<Rightarrow> \<lparr>requests = observations, failure = Some (NetworkError m)\<rparr>
                | None \<Rightarrow>
                    (case collectErrors (zip observations (resolved outcomes)) of
                       Inl e \<Rightarrow> \<lparr>requests = observations, failure = Some e\<rparr>
                     | Inr errors \<Rightarrow>
                         if length errors > 0 then
                           \<lparr>requests = observations, failure = Some (HttpError (join ''; '' errors))\<rparr>
                         else \<lparr>requests = observations, failure = None\<rparr>)))"

section \<open>PatientObservations.jsx: the Observation formatter\<close>







section \<open>ConsultationForm.jsx: the Composition builder\<close>

record consultationForm =
  date :: string
  chiefComplaint :: string
  historyOfPresentIllness :: string
  physicalExamination :: string
  assessment :: string
  plan :: string
  "notes" :: string

definition xhtmlDiv :: "string \<Rightarrow> string" where
  \<open>xhtmlDiv t = ''<div xmlns="http://www.w3.org/1999/xhtml">'' @ t @ ''</div>''\<close>

definition sectionFor :: "string \<Rightarrow> string \<Rightarrow> string \<Rightarrow> string \<Rightarrow> sectionEntry list" where
  \<comment> \<open>one \<open>if (formData.x) { sections.push({...}) }\<close> block: title, LOINC code, display, field\<close>
  "sectionFor title code display field =
     (if field \<noteq> [] then
        [\<lparr>s_title = title,
          s_code = \<lparr>cc_coding = Some [\<lparr>c_system = Some ''http://loinc.org'', c_code = Some code,
                                       c_display = Some display\<rparr>],
                    cc_text = None\<rparr>,
          s_text = \<lparr>n_status = ''generated'', n_div = xhtmlDiv field\<rparr>\<rparr>]
      else [])"

definition createComposition :: "patient \<Rightarrow> consultationForm \<Rightarrow> composition" where
  "createComposition pat formData =
     (let sections =
            sectionFor ''Chief Complaint'' ''10154-3'' ''Chief complaint'' (chiefComplaint formData)
          @ sectionFor ''History of Present Illness'' ''10164-2'' ''History of present illness''
              (historyOfPresentIllness formData)
          @ sectionFor ''Physical Examination'' ''29545-1'' ''Physical examination''
              (physicalExamination formData)
          @ sectionFor ''Assessment'' ''51848-0'' ''Assessment'' (assessment formData)
          @ sectionFor ''Plan'' ''18776-5'' ''Plan'' (plan formData)
          @ sectionFor ''Additional Notes'' ''11506-3'' ''Progress note'' (notes formData)
      in \<lparr>cmp_resourceType = ''Composition'',
          cmp_status = ''final'',
          cmp_type =
            \<lparr>cc_coding = Some [\<lparr>c_system = Some ''http://loinc.org'', c_code = Some ''11506-3'',
                                  c_display = Some ''Progress note''\<rparr>],
             cc_text = Some ''Cardiology Consultation Report''\<rparr>,
          cmp_category =
            [\<lparr>cc_coding = Some [\<lparr>c_system = Some ''http://snomed.info/sct'', c_code = Some ''308335008'',
                                   c_display = Some ''Patient consultation''\<rparr>],
              cc_text = Some ''Consultation''\<rparr>],
          cmp_subject = subjectOf pat,
          cmp_date = date formData,
          cmp_author =
            [\<lparr>r_reference = Some (''Organization/'' @ ORGANIZATION_ID),
              r_display = Some ''Demo General Hospital - Cardiology Department''\<rparr>],
          cmp_title = ''Cardiology Consultation Report'',
          cmp_section = sections\<rparr>)"

definition handleSubmitConsultation ::
  "(composition \<Rightarrow> fetchOutcome) \<Rightarrow> patient \<Rightarrow> consultationForm \<Rightarrow> composition submission" where
  \<comment> \<open>\<open>handleSubmit\<close> of ConsultationForm\<close>
  "handleSubmitConsultation fetch pat formData =
     (if chiefComplaint formData = [] \<and> assessment formData = [] \<and> plan formData = [] then
        \<lparr>requests = [],
         failure = Some (ValidationError ''Please provide at least Chief Complaint, Assessment, or Plan'')\<rparr>
      else
        (let composition = createComposition pat formData
         in if length (cmp_section composition) = 0 then
              \<lparr>requests = [],
               failure = Some (ValidationError
                 ''Please provide at least one section of the consultation report'')\<rparr>
            else
              (case fetch composition of
                 Rejected m \<Rightarrow> \<lparr>requests = [composition], failure = Some (NetworkError m)\<rparr>
               | Resolved r \<Rightarrow>
                   if \<not> ok r then
                     \<lparr>requests = [composition],
                      failure = Some (HttpError
                        (''Failed to create consultation report: '' @ statusAndDiagnostics r))\<rparr>
                   else \<lparr>requests = [composition], failure = None\<rparr>)))"

section \<open>scripts/insert-john-doe-history.js: what the seed script creates\<close>

record bpReading =
  yearsAgo :: rat
  systolic :: nat
  diastolic :: nat

definition bpReadings :: "bpReading list" where
  "bpReadings =
     [\<lparr>yearsAgo = 6, systolic = 200, diastolic = 110\<rparr>,
      \<lparr>yearsAgo = 11 / 2, systolic = 195, diastolic = 108\<rparr>,
      \<lparr>yearsAgo = 5, systolic = 205, diastolic = 112\<rparr>,
      \<lparr>yearsAgo = 9 / 2, systolic = 198, diastolic = 109\<rparr>,
      \<lparr>yearsAgo = 4, systolic = 200, diastolic = 110\<rparr>,
      \<lparr>yearsAgo = 7 / 2, systolic = 202, diastolic = 111\<rparr>,
      \<lparr>yearsAgo = 3, systolic = 198, diastolic = 108\<rparr>,
      \<lparr>yearsAgo = 5 / 2, systolic = 200, diastolic = 110\<rparr>,
      \<lparr>yearsAgo = 2, systolic = 195, diastolic = 109\<rparr>,
      \<lparr>yearsAgo = 3 / 2, systolic = 200, diastolic = 110\<rparr>,
      \<lparr>yearsAgo = 1, systolic = 198, diastolic = 108\<rparr>,
      \<lparr>yearsAgo = 1 / 2, systolic = 200, diastolic = 110\<rparr>]"

definition bpComponent :: "string \<Rightarrow> string \<Rightarrow> nat \<Rightarrow> component" where
  "bpComponent code display v =
     \<lparr>comp_code = Some
        \<lparr>cc_coding = Some [\<lparr>c_system = Some ''http://loinc.org'', c_code = Some code, c_display = Some display\<rparr>],
         cc_text = None\<rparr>,
      comp_valueQuantity = Some
        \<lparr>q_value = Some (ofNat v), q_unit = Some ''mmHg'', q_system = Some ''http://unitsofmeasure.org'',
         q_code = Some ''mm[Hg]''\<rparr>,
      comp_valueString = None,
      comp_valueCodeableConcept = None\<rparr>"

definition bpObservation :: "(rat \<Rightarrow> string) \<Rightarrow> string option \<Rightarrow> bpReading \<Rightarrow> observation" where
  \<comment> \<open>the body of the loop over \<open>bpReadings\<close> (lines 431-489). \<open>getDateTimeYearsAgo\<close> reads
      the clock and is a parameter; \<open>patientId\<close> is the \<open>id\<close> of the Patient just created.\<close>
  "bpObservation getDateTimeYearsAgo patientId reading =
     \<lparr>obs_resourceType = ''Observation'',
      obs_status = Some ''final'',
      obs_category = Some
        [\<lparr>cc_coding = Some
             [\<lparr>c_system = Some ''http://terminology.hl7.org/CodeSystem/observation-category'',
               c_code = Some ''vital-signs'',
               c_display = Some ''Vital Signs''\<rparr>],
           cc_text = None\<rparr>],
      obs_code = Some
        \<lparr>cc_coding = Some [\<lparr>c_system = Some ''http://loinc.org'', c_code = Some ''85354-9'',
                              c_display = Some ''Blood pressure panel with all children optional''\<rparr>],
         cc_text = None\<rparr>,
      obs_subject = Some \<lparr>r_reference = Some (''Patient/'' @ tplString patientId), r_display = Some ''John Doe''\<rparr>,
      obs_effectiveDateTime = Some (getDateTimeYearsAgo (yearsAgo reading)),
      obs_valueQuantity = None,
      obs_valueString = None,
      obs_valueCodeableConcept = None,
      obs_component = Some
        [bpComponent ''8480-6'' ''Systolic blood pressure'' (systolic reading),
         bpComponent ''8462-4'' ''Diastolic blood pressure'' (diastolic reading)],
      obs_performer = Some
        [\<lparr>r_reference = Some (''Organization/'' @ ORGANIZATION_ID), r_display = Some ''Demo General Hospital''\<rparr>]\<rparr>"

record consult =
  sc_yearsAgo :: rat
  sc_chiefComplaint :: string
  sc_history :: string
  sc_physicalExam :: string
  sc_assessment :: string
  sc_plan :: string

definition seedSection :: "string \<Rightarrow> string \<Rightarrow> string \<Rightarrow> string \<Rightarrow> sectionEntry" where
  "seedSection title code display field =
     \<lparr>s_title = title,
      s_code = \<lparr>cc_coding = Some [\<lparr>c_system = Some ''http://loinc.org'', c_code = Some code,
                                   c_display = Some display\<rparr>],
                cc_text = None\<rparr>,
      s_text = \<lparr>n_status = ''generated'', n_div = xhtmlDiv field\<rparr>\<rparr>"

definition seedComposition :: "(rat \<Rightarrow> string) \<Rightarrow> string option \<Rightarrow> consult \<Rightarrow> composition" where
  \<comment> \<open>the body of the loop over \<open>consultations\<close> (lines 575-676), for any entry of that table\<close>
  "seedComposition getDateTimeYearsAgo patientId c =
     \<lparr>cmp_resourceType = ''Composition'',
      cmp_status = ''final'',
      cmp_type =
        \<lparr>cc_coding = Some [\<lparr>c_system = Some ''http://loinc.org'', c_code = Some ''11506-3'',
                              c_display = Some ''Progress note''\<rparr>],
         cc_text = Some ''Cardiology Consultation Report''\<rparr>,
      cmp_category =
        [\<lparr>cc_coding = Some [\<lparr>c_system = Some ''http://snomed.info/sct'', c_code = Some ''308335008'',
                               c_display = Some ''Patient consultation''\<rparr>],
          cc_text = Some ''Consultation''\<rparr>],
      cmp_subject = \<lparr>r_reference = Some (''Patient/'' @ tplString patientId), r_display = Some ''John Doe''\<rparr>,
      cmp_date = getDateTimeYearsAgo (sc_yearsAgo c),
      cmp_author =
        [\<lparr>r_reference = Some (''Organization/'' @ ORGANIZATION_ID),
          r_display = Some ''Demo General Hospital - Cardiology Department''\<rparr>],
      cmp_title = ''Cardiology Consultation Report'',
      cmp_section =
        [seedSection ''Chief Complaint'' ''10154-3'' ''Chief complaint'' (sc_chiefComplaint c),
         seedSection ''History of Present Illness'' ''10164-2'' ''History of present illness'' (sc_history c),
         seedSection ''Physical Examination'' ''29545-1'' ''Physical examination'' (sc_physicalExam c),
         seedSection ''Assessment'' ''51848-0'' ''Assessment'' (sc_assessment c),
         seedSection ''Plan'' ''18776-5'' ''Plan'' (sc_plan c)]\<rparr>"

section \<open>PatientMedications.jsx: the medication formatter\<close>

record repeatT =
  frequency :: "jsnum option"
  periodUnit :: "string option"

record timingT =
  repeat :: "repeatT option"

record dosage =
  d_text :: "string option"
  d_timing :: "timingT option"

record medicationRequest =
  medicationCodeableConcept :: "codeableConcept option"
  mr_status :: "string option"
  mr_intent :: "string option"
  dosageInstruction :: "dosage list option"

record medicationDisplay =
  md_name :: string
  md_status :: string
  md_intent :: string
  md_dosage :: string

definition firstDosage :: "medicationRequest \<Rightarrow> dosage option" where
  \<comment> \<open>\<open>medication.dosageInstruction?.[0]\<close>\<close>
  "firstDosage m = (case dosageInstruction m of None \<Rightarrow> None | Some [] \<Rightarrow> None | Some (d # _) \<Rightarrow> Some d)"

definition repeatOf :: "dosage option \<Rightarrow> repeatT option" where
  \<comment> \<open>\<open>d?.timing?.repeat\<close>\<close>
  "repeatOf d = (case d of None \<Rightarrow> None | Some x \<Rightarrow> (case d_timing x of None \<Rightarrow> None | Some t \<Rightarrow> repeat t))"

definition numOr :: "jsnum option \<Rightarrow> jsnum \<Rightarrow> jsnum" where
  \<comment> \<open>\<open>n || literal\<close> on an optional number: \<open>undefined\<close>, 0 and NaN are falsy\<close>
  "numOr v d = (case v of None \<Rightarrow> d | Some x \<Rightarrow> if x = Zero \<or> x = NaN then d else x)"

definition frequencyText :: "repeatT \<Rightarrow> string" where
  \<comment> \<open>\<open>`${repeat.frequency || 1}x per ${repeat.periodUnit || 'day'}`\<close>\<close>
  "frequencyText r = numToString (numOr (frequency r) (ofNat 1)) @ ''x per '' @ orDefault (periodUnit r) ''day''"

definition getMedicationDisplay :: "medicationRequest \<Rightarrow> string + medicationDisplay" where
  \<comment> \<open>The conditional operator binds weaker than \<open>||\<close>: the dosage is
      \<open>(text || repeat) ? frequency text : 'As directed'\<close>. The frequency text reads
      \<open>medication.dosageInstruction[0].timing.repeat\<close> without \<open>?.\<close>, so a missing \<open>timing\<close> or
      \<open>repeat\<close> throws a TypeError (\<open>Inl\<close>, with its message).\<close>
  "getMedicationDisplay m =
     (let name = orDefault (orElse (firstDisplay (medicationCodeableConcept m))
                                   (textOf (medicationCodeableConcept m))) ''Unknown medication'';
          st = orDefault (mr_status m) ''unknown'';
          intent = orDefault (mr_intent m) ''unknown'';
          d0 = firstDosage m
      in if truthy (case d0 of None \<Rightarrow> None | Some d \<Rightarrow> d_text d) \<or> repeatOf d0 \<noteq> None then
           (case d0 of
              None \<Rightarrow> Inl ''Cannot read properties of undefined (reading '0')''
            | Some d \<Rightarrow>
                (case d_timing d of
                   None \<Rightarrow> Inl ''Cannot read properties of undefined (reading 'repeat')''
                 | Some t \<Rightarrow>
                     (case repeat t of
                        None \<Rightarrow> Inl ''Cannot read properties of undefined (reading 'frequency')''
                      | Some r \<Rightarrow>
                          Inr \<lparr>md_name = name, md_status = st, md_intent = intent,
                               md_dosage = frequencyText r\<rparr>)))
         else Inr \<lparr>md_name = name, md_status = st, md_intent = intent, md_dosage = ''As directed''\<rparr>)"

section \<open>PatientList.jsx: the date formatter\<close>

text \<open>
  \<open>formatDate\<close> calls two things of the JavaScript runtime: the \<open>Date\<close> constructor on a
  string, which yields a time value in milliseconds or NaN (an invalid date) and never throws,
  and \<open>toLocaleDateString('en-US', {year: 'numeric', month: 'short', day: 'numeric'})\<close>, which
  returns the text \<open>Invalid Date\<close> for an invalid date and does not throw for this locale and
  these options. Both are parameters of the model: \<open>parse\<close> (with \<open>None\<close> for NaN) and \<open>render\<close>.
  The \<open>catch\<close> branch of the source, which would return the argument, is therefore never taken
  and has no branch in the model.
\<close>

definition toLocaleDateString :: "(int \<Rightarrow> string) \<Rightarrow> int option \<Rightarrow> string" where
  "toLocaleDateString render t = (case t of None \<Rightarrow> ''Invalid Date'' | Some ms \<Rightarrow> render ms)"

definition formatDate :: "(string \<Rightarrow> int option) \<Rightarrow> (int \<Rightarrow> string) \<Rightarrow> string option \<Rightarrow> string" where
  "formatDate parse render dateString =
     (case dateString of
        None \<Rightarrow> ''N/A''
      | Some s \<Rightarrow> if s = [] then ''N/A'' else toLocaleDateString render (parse s))"

section \<open>scripts/insert-john-doe-history.js: the cleanup phase\<close>

text \<open>
  The script talks to the server through \<open>fetch\<close>. A run is recorded as the list of requests
  it sends, oldest first. The server is a parameter: it answers a request knowing the requests
  sent before it, so its answers may depend on what was deleted already. The pauses
  (\<open>delay\<close>) and the console output have no part in the model.
\<close>

datatype request =
    Search string string        \<comment> \<open>GET \<open>{base}/{type}?{query}\<close>\<close>
  | Delete string string bool   \<comment> \<open>DELETE \<open>{base}/{type}/{id}\<close>, with \<open>?_cascade=delete\<close> when the flag is set\<close>

definition FHIR_BASE_URL :: string where
  "FHIR_BASE_URL = ''https://hapi.fhir.org/baseR4''"

fun url :: "request \<Rightarrow> string" where
  "url (Search t q) = FHIR_BASE_URL @ ''/'' @ t @ ''?'' @ q"
| "url (Delete t i cascade) =
     FHIR_BASE_URL @ ''/'' @ t @ ''/'' @ i @ (if cascade then ''?_cascade=delete'' else [])"















section \<open>Reading the resources built\<close>

definition codingsOf :: "codeableConcept option \<Rightarrow> coding list" where
  "codingsOf x = (case x of None \<Rightarrow> [] | Some cc \<Rightarrow> (case cc_coding cc of None \<Rightarrow> [] | Some ks \<Rightarrow> ks))"

definition codesOf :: "observation \<Rightarrow> (string option \<times> string option) list" where
  \<comment> \<open>coding system and code of every coding of \<open>obs.code\<close>\<close>
  "codesOf obs = map (\<lambda>k. (c_system k, c_code k)) (codingsOf (obs_code obs))"

definition categoryCodes :: "observation \<Rightarrow> string option list list" where
  \<comment> \<open>for every entry of \<open>obs.category\<close>, the codes of its codings\<close>
  "categoryCodes obs =
     (case obs_category obs of None \<Rightarrow> [] | Some cs \<Rightarrow> map (\<lambda>c. map c_code (codingsOf (Some c))) cs)"

definition valueOf :: "observation \<Rightarrow> jsnum option" where
  \<comment> \<open>\<open>obs.valueQuantity?.value\<close>\<close>
  "valueOf obs = (case obs_valueQuantity obs of None \<Rightarrow> None | Some q \<Rightarrow> q_value q)"

definition unitOf :: "observation \<Rightarrow> string option" where
  "unitOf obs = (case obs_valueQuantity obs of None \<Rightarrow> None | Some q \<Rightarrow> q_unit q)"

definition unitSystemOf :: "observation \<Rightarrow> string option" where
  "unitSystemOf obs = (case obs_valueQuantity obs of None \<Rightarrow> None | Some q \<Rightarrow> q_system q)"

definition subjectRef :: "observation \<Rightarrow> string option" where
  "subjectRef obs = (case obs_subject obs of None \<Rightarrow> None | Some r \<Rightarrow> r_reference r)"

definition performerRefs :: "observation \<Rightarrow> string option list" where
  "performerRefs obs = (case obs_performer obs of None \<Rightarrow> [] | Some rs \<Rightarrow> map r_reference rs)"

definition validLabValue :: "string \<Rightarrow> bool" where
  \<comment> \<open>a field that passes the numeric check of the form: it parses, and not below zero\<close>
  "validLabValue s \<longleftrightarrow> \<not> isNaN (parseFloat s) \<and> \<not> ltZero (parseFloat s)"





fun searchesOf :: "request list \<Rightarrow> string list" where
  \<comment> \<open>the resource types searched for, in order\<close>
  "searchesOf [] = []"
| "searchesOf (Search t q # rs) = t # searchesOf rs"
| "searchesOf (Delete t i cascade # rs) = searchesOf rs"






section \<open>Sample inputs\<close>

definition johnDoe :: patient where
  "johnDoe = \<lparr>p_id = Some ''1001'', p_name = Some [\<lparr>given = Some [''John''], family = Some ''Doe''\<rparr>]\<rparr>"

definition bothLabs :: labForm where
  "bothLabs = \<lparr>gfr = ''90.0'', hemoglobin = ''14.5'', effectiveDateTime = ''2024-01-05''\<rparr>"




definition stableOnly :: consultationForm where
  "stableOnly = \<lparr>date = ''2024-01-05'', chiefComplaint = [], historyOfPresentIllness = [],
                 physicalExamination = [], assessment = ''stable'', plan = [], notes = []\<rparr>"

definition answering :: "response \<Rightarrow> 'r \<Rightarrow> fetchOutcome" where
  \<comment> \<open>a server that gives every request the same response\<close>
  "answering r req = Resolved r"


definition bpSample :: observation where
  \<comment> \<open>the first blood pressure reading of the seed script, for a patient with id 1001\<close>
  "bpSample = bpObservation (\<lambda>y. ''2019-01-05T09:00:00.000Z'') (Some ''1001'') (hd bpReadings)"


definition created :: response where
  "created = \<lparr>status = 201, body = None\<rparr>"

definition twiceDaily :: medicationRequest where
  \<comment> \<open>a MedicationRequest whose only dosage instruction has no text and a timing of 2 per day\<close>
  "twiceDaily =
     \<lparr>medicationCodeableConcept = Some \<lparr>cc_coding = None, cc_text = Some ''Aspirin''\<rparr>,
      mr_status = Some ''active'', mr_intent = Some ''order'',
      dosageInstruction = Some
        [\<lparr>d_text = None,
          d_timing = Some \<lparr>repeat = Some \<lparr>frequency = Some (ofNat 2), periodUnit = Some ''d''\<rparr>\<rparr>\<rparr>]\<rparr>"



text \<open>
  A sample runtime for the date formatter: a \<open>Date\<close> parser that accepts the date-only form
  \<open>YYYY-MM-DD\<close> and reads it as midnight UTC, and the \<open>en-US\<close> short-month rendering of a
  time value in the time zone UTC.
\<close>

definition isLeapYear :: "int \<Rightarrow> bool" where
  "isLeapYear y \<longleftrightarrow> (y mod 4 = 0 \<and> y mod 100 \<noteq> 0) \<or> y mod 400 = 0"

definition daysInMonth :: "int \<Rightarrow> int \<Rightarrow> int" where
  "daysInMonth y m =
     (if m = 2 then (if isLeapYear y then 29 else 28)
      else if m = 4 \<or> m = 6 \<or> m = 9 \<or> m = 11 then 30 else 31)"

definition daysFromCivil :: "int \<Rightarrow> int \<Rightarrow> int \<Rightarrow> int" where
  \<comment> \<open>days from 1970-01-01 to the given day of the Gregorian calendar\<close>
  "daysFromCivil y m d =
     (let y' = (if m \<le> 2 then y - 1 else y);
          era = y' div 400;
          yoe = y' - era * 400;
          doy = (153 * (if m > 2 then m - 3 else m + 9) + 2) div 5 + d - 1;
          doe = yoe * 365 + yoe div 4 - yoe div 100 + doy
      in era * 146097 + doe - 719468)"

definition civilFromDays :: "int \<Rightarrow> int \<times> int \<times> int" where
  \<comment> \<open>year, month and day of the day that many days after 1970-01-01\<close>
  "civilFromDays z =
     (let z' = z + 719468;
          era = z' div 146097;
          doe = z' - era * 146097;
          yoe = (doe - doe div 1460 + doe div 36524 - doe div 146096) div 365;
          doy = doe - (365 * yoe + yoe div 4 - yoe div 100);
          mp = (5 * doy + 2) div 153;
          d = doy - (153 * mp + 2) div 5 + 1;
          m = (if mp < 10 then mp + 3 else mp - 9);
          y = yoe + era * 400 + (if m \<le> 2 then 1 else 0)
      in (y, m, d))"

definition dateOnlyParse :: "string \<Rightarrow> int option" where
  "dateOnlyParse s =
     (if length s = 10 \<and> s ! 4 = CHR ''-'' \<and> s ! 7 = CHR ''-''
         \<and> list_all isDigit (take 4 s) \<and> list_all isDigit (take 2 (drop 5 s))
         \<and> list_all isDigit (drop 8 s)
      then
        (let y = int (natOfDigits (take 4 s)); m = int (natOfDigits (take 2 (drop 5 s)));
             d = int (natOfDigits (drop 8 s))
         in if 1 \<le> m \<and> m \<le> 12 \<and> 1 \<le> d \<and> d \<le> daysInMonth y m
            then Some (daysFromCivil y m d * 86400000) else None)
      else None)"

definition utcShortDate :: "int \<Rightarrow> string" where
  "utcShortDate ms =
     (let (y, m, d) = civilFromDays (ms div 86400000)
      in [''Jan'', ''Feb'', ''Mar'', ''Apr'', ''May'', ''Jun'', ''Jul'', ''Aug'', ''Sep'', ''Oct'', ''Nov'', ''Dec'']
           ! nat (m - 1) @ '' '' @ digitsOf (nat d) @ '', '' @ digitsOf (nat y))"

definition stops :: "string \<Rightarrow> bool" where
  \<comment> \<open>what may follow a numeral without being read as part of it: nothing, or a space\<close>
  "stops rest \<longleftrightarrow> rest = [] \<or> hd rest = CHR '' ''"

section \<open>Properties of the number model\<close>

lemma isDigit_digitChar: "d < 10 \<Longrightarrow> isDigit (digitChar d)"
proof -
  assume "d < 10"
  then have "d \<in> {0,1,2,3,4,5,6,7,8,9}" by auto
  then show ?thesis by (auto simp: isDigit_def digitChar_def)
qed

lemma digitVal_digitChar: "d < 10 \<Longrightarrow> digitVal (digitChar d) = d"
proof -
  assume "d < 10"
  then have "d \<in> {0,1,2,3,4,5,6,7,8,9}" by auto
  then show ?thesis by (auto simp: digitVal_def digitChar_def)
qed




lemma digitsOf_digits: "list_all isDigit (digitsOf n)"
proof (induction n rule: digitsOf.induct)
  case (1 n)
  show ?case
  proof (cases "n < 10")
    case True
    then show ?thesis by (subst digitsOf.simps) (simp add: isDigit_digitChar)
  next
    case False
    with 1 show ?thesis by (subst digitsOf.simps) (simp add: isDigit_digitChar)
  qed
qed

lemma digitsOf_nonempty: "digitsOf n \<noteq> []"
  by (subst digitsOf.simps) simp

lemma natOfDigits_snoc: "natOfDigits (xs @ [c]) = 10 * natOfDigits xs + digitVal c"
  by (simp add: natOfDigits_def)

lemma natOfDigits_digitsOf: "natOfDigits (digitsOf n) = n"
proof (induction n rule: digitsOf.induct)
  case (1 n)
  show ?case
  proof (cases "n < 10")
    case True
    then show ?thesis
      by (subst digitsOf.simps) (simp add: natOfDigits_def digitVal_digitChar)
  next
    case False
    with 1 show ?thesis
      by (subst digitsOf.simps) (simp add: natOfDigits_snoc digitVal_digitChar)
  qed
qed

lemma takeWhile_digits:
  "list_all isDigit ds \<Longrightarrow> r = [] \<or> \<not> isDigit (hd r) \<Longrightarrow> takeWhile isDigit (ds @ r) = ds"
  by (induction ds) (auto simp: takeWhile_eq_Nil_iff neq_Nil_conv list_all_iff)

lemma dropWhile_digits:
  "list_all isDigit ds \<Longrightarrow> r = [] \<or> \<not> isDigit (hd r) \<Longrightarrow> dropWhile isDigit (ds @ r) = r"
  by (induction ds) (auto simp: dropWhile_eq_self_iff neq_Nil_conv)

lemma mkNum_canonical:
  assumes "ds \<noteq> []" "hd ds \<noteq> CHR ''0''" "last ds \<noteq> CHR ''0''"
  shows "mkNum neg (replicate i CHR ''0'' @ ds @ replicate j CHR ''0'') n = Num neg ds (n - int i)"
proof -
  let ?z = "\<lambda>c. c = CHR ''0''"
  have a: "takeWhile ?z (replicate i CHR ''0'' @ ds @ replicate j CHR ''0'') = replicate i CHR ''0''"
    using assms by (cases ds) (simp_all add: takeWhile_append)
  have b: "dropWhile ?z (replicate i CHR ''0'' @ ds @ replicate j CHR ''0'') = ds @ replicate j CHR ''0''"
    using assms by (cases ds) (simp_all add: dropWhile_append)
  have c: "dropWhile ?z (rev (ds @ replicate j CHR ''0'')) = rev ds"
    using assms by (cases "rev ds") (simp_all add: dropWhile_append last_rev hd_rev)
  have d: "rev (dropWhile ?z (rev (dropWhile ?z (replicate i CHR ''0'' @ ds @ replicate j CHR ''0'')))) = ds"
    by (simp only: b c rev_rev_ident)
  show ?thesis
    unfolding mkNum_def Let_def d a using assms(1) by simp
qed

lemma parseFloat_signed:
  assumes "isDigit c"
  shows "parseFloat (signStr neg @ c # u) =
     (let ip = takeWhile isDigit (c # u); r1 = dropWhile isDigit (c # u);
          dot = (r1 \<noteq> [] \<and> hd r1 = CHR ''.'');
          fp = (if dot then takeWhile isDigit (tl r1) else []);
          r2 = (if dot then dropWhile isDigit (tl r1) else r1)
      in mkNum neg (ip @ fp) (int (length ip) + exponentPart r2))"
proof -
  have c_plain: "c \<noteq> CHR ''-''" "c \<noteq> CHR ''+''" "c \<noteq> CHR ''I''" "\<not> isWhiteSpace c"
    using assms by (auto simp: isDigit_def isWhiteSpace_def)
  have sp: "signPart (trimStart (signStr neg @ c # u)) = (neg, c # u)"
    using c_plain by (simp add: signPart_def trimStart_def isWhiteSpace_def signStr_def)
  have noinf: "\<not> prefix ''Infinity'' (c # u)"
    using c_plain by simp
  have ne: "takeWhile isDigit (c # u) \<noteq> []" using assms by simp
  show ?thesis
    unfolding parseFloat_def sp Let_def prod.case using noinf ne by (simp only: if_False simp_thms)
qed

lemma parseFloat_plain:
  assumes ip: "list_all isDigit ip" "ip \<noteq> []"
    and tl: "tail = [] \<or> (\<not> isDigit (hd tail) \<and> hd tail \<noteq> CHR ''.'')"
  shows "parseFloat (signStr neg @ ip @ tail) = mkNum neg ip (int (length ip) + exponentPart tail)"
proof -
  obtain c cs where ipc: "ip = c # cs" using ip(2) by (cases ip) auto
  have dc: "isDigit c" using ip(1) ipc by simp
  have t: "tail = [] \<or> \<not> isDigit (hd tail)" using tl by auto
  have tk: "takeWhile isDigit (c # cs @ tail) = ip"
    using takeWhile_digits[OF ip(1) t] ipc by simp
  have dr: "dropWhile isDigit (c # cs @ tail) = tail"
    using dropWhile_digits[OF ip(1) t] ipc by simp
  have "parseFloat (signStr neg @ c # cs @ tail) = mkNum neg ip (int (length ip) + exponentPart tail)"
    unfolding parseFloat_signed[OF dc] Let_def tk dr using tl by auto
  then show ?thesis by (simp add: ipc)
qed

lemma parseFloat_dotted:
  assumes ip: "list_all isDigit ip" "ip \<noteq> []"
    and fp: "list_all isDigit fp"
    and tl: "tail = [] \<or> \<not> isDigit (hd tail)"
  shows "parseFloat (signStr neg @ ip @ ''.'' @ fp @ tail)
         = mkNum neg (ip @ fp) (int (length ip) + exponentPart tail)"
proof -
  obtain c cs where ipc: "ip = c # cs" using ip(2) by (cases ip) auto
  have dc: "isDigit c" using ip(1) ipc by simp
  have t: "CHR ''.'' # fp @ tail = [] \<or> \<not> isDigit (hd (CHR ''.'' # fp @ tail))"
    by (simp add: isDigit_def)
  have tk: "takeWhile isDigit (c # cs @ CHR ''.'' # fp @ tail) = ip"
    using takeWhile_digits[OF ip(1) t] ipc by simp
  have dr: "dropWhile isDigit (c # cs @ CHR ''.'' # fp @ tail) = CHR ''.'' # fp @ tail"
    using dropWhile_digits[OF ip(1) t] ipc by simp
  have f: "takeWhile isDigit (fp @ tail) = fp" "dropWhile isDigit (fp @ tail) = tail"
    using takeWhile_digits[OF fp tl] dropWhile_digits[OF fp tl] by auto
  have "parseFloat (signStr neg @ c # cs @ CHR ''.'' # fp @ tail)
        = mkNum neg (ip @ fp) (int (length ip) + exponentPart tail)"
    unfolding parseFloat_signed[OF dc] Let_def tk dr by (simp add: f)
  then show ?thesis by (simp add: ipc)
qed

lemma replicate_zero_digits: "list_all isDigit (replicate i CHR ''0'')"
  by (simp add: list_all_iff isDigit_def)

lemma exponentPart_stops: "stops rest \<Longrightarrow> exponentPart rest = 0"
  by (auto simp: stops_def exponentPart_def split: list.splits)

lemma exponentPart_digits:
  assumes "stops rest"
  shows "exponentPart (''e'' @ (if neg then ''-'' else ''+'') @ digitsOf m @ rest)
         = (if neg then - int m else int m)"
proof -
  have r: "rest = [] \<or> \<not> isDigit (hd rest)"
    using assms by (auto simp: stops_def isDigit_def)
  have "takeWhile isDigit (digitsOf m @ rest) = digitsOf m"
    by (rule takeWhile_digits[OF digitsOf_digits r])
  then show ?thesis
    by (simp add: exponentPart_def signPart_def digitsOf_nonempty natOfDigits_digitsOf)
qed

lemma numToString_Num:
  "numToString (Num neg ds n) = signStr neg @
     (let k = int (length ds) in
        if k \<le> n \<and> n \<le> 21 then ds @ replicate (nat (n - k)) CHR ''0''
        else if 0 < n \<and> n \<le> 21 then take (nat n) ds @ ''.'' @ drop (nat n) ds
        else if - 6 < n \<and> n \<le> 0 then ''0'' @ ''.'' @ (replicate (nat (- n)) CHR ''0'' @ ds)
        else if k = 1 then ds @ (''e'' @ (if n - 1 < 0 then ''-'' else ''+'') @ digitsOf (nat \<bar>n - 1\<bar>))
        else [hd ds] @ ''.'' @ tl ds @ (''e'' @ (if n - 1 < 0 then ''-'' else ''+'') @ digitsOf (nat \<bar>n - 1\<bar>)))"
  by (simp add: numToString_def signStr_def Let_def)

lemma parseFloat_numToString:
  assumes "canonical v" "stops rest"
  shows "parseFloat (numToString v @ rest) = v"
proof (cases v)
  case NaN
  then show ?thesis
    by (simp add: numToString_def parseFloat_def signPart_def trimStart_def isWhiteSpace_def isDigit_def)
next
  case (Infinity neg)
  then show ?thesis
    by (simp add: numToString_def parseFloat_def signPart_def trimStart_def isWhiteSpace_def)
next
  case Zero
  have st: "rest = [] \<or> (\<not> isDigit (hd rest) \<and> hd rest \<noteq> CHR ''.'')"
    using assms(2) by (auto simp: stops_def isDigit_def)
  have "parseFloat (signStr False @ ''0'' @ rest) = mkNum False ''0'' (int (length ''0'') + exponentPart rest)"
    by (rule parseFloat_plain[OF _ _ st]) (simp_all add: isDigit_def)
  then show ?thesis using Zero
    by (simp add: numToString_def mkNum_def signStr_def)
next
  case (Num neg ds n)
  let ?k = "int (length ds)"
  from assms(1) Num have ds: "ds \<noteq> []" "list_all isDigit ds" "hd ds \<noteq> CHR ''0''" "last ds \<noteq> CHR ''0''"
    by (simp_all add: canonical_def)
  have st: "rest = [] \<or> (\<not> isDigit (hd rest) \<and> hd rest \<noteq> CHR ''.'')"
    using assms(2) by (auto simp: stops_def isDigit_def)
  have st': "rest = [] \<or> \<not> isDigit (hd rest)" using st by auto
  have ex0: "exponentPart rest = 0" by (rule exponentPart_stops[OF assms(2)])
  have mk: "\<And>i j m. mkNum neg (replicate i CHR ''0'' @ ds @ replicate j CHR ''0'') m = Num neg ds (m - int i)"
    by (rule mkNum_canonical[OF ds(1,3,4)])
  let ?tail = "''e'' @ (if n - 1 < 0 then ''-'' else ''+'') @ digitsOf (nat \<bar>n - 1\<bar>) @ rest"
  have extail: "exponentPart ?tail = n - 1"
    using exponentPart_digits[OF assms(2), of "n - 1 < 0" "nat \<bar>n - 1\<bar>"] by auto
  have tailst: "?tail = [] \<or> (\<not> isDigit (hd ?tail) \<and> hd ?tail \<noteq> CHR ''.'')"
    by (simp add: isDigit_def)
  have tailst': "?tail = [] \<or> \<not> isDigit (hd ?tail)"
    by (simp add: isDigit_def)
  consider (A) "?k \<le> n \<and> n \<le> 21"
    | (B) "\<not> (?k \<le> n \<and> n \<le> 21)" "0 < n \<and> n \<le> 21"
    | (C) "\<not> (?k \<le> n \<and> n \<le> 21)" "\<not> (0 < n \<and> n \<le> 21)" "- 6 < n \<and> n \<le> 0"
    | (D) "\<not> (?k \<le> n \<and> n \<le> 21)" "\<not> (0 < n \<and> n \<le> 21)" "\<not> (- 6 < n \<and> n \<le> 0)" "?k = 1"
    | (E) "\<not> (?k \<le> n \<and> n \<le> 21)" "\<not> (0 < n \<and> n \<le> 21)" "\<not> (- 6 < n \<and> n \<le> 0)" "?k \<noteq> 1"
    by blast
  then show ?thesis
  proof cases
    case A
    let ?ip = "ds @ replicate (nat (n - ?k)) CHR ''0''"
    have "parseFloat (signStr neg @ ?ip @ rest) = mkNum neg ?ip (int (length ?ip) + exponentPart rest)"
      by (rule parseFloat_plain[OF _ _ st]) (use ds in \<open>simp_all add: replicate_zero_digits\<close>)
    moreover have "mkNum neg ?ip (int (length ?ip) + exponentPart rest) = Num neg ds n"
      using mk[of 0 "nat (n - ?k)"] A by (simp add: ex0)
    ultimately have "parseFloat (signStr neg @ ?ip @ rest) = Num neg ds n" by simp
    then show ?thesis unfolding Num numToString_Num Let_def using A by simp
  next
    case B
    let ?ip = "take (nat n) ds" and ?fp = "drop (nat n) ds"
    have lt: "nat n < length ds" using B by auto
    have ipd: "list_all isDigit ?ip" "list_all isDigit ?fp"
      using ds(2) by (auto simp: list_all_iff dest: in_set_takeD in_set_dropD)
    have ipn: "?ip \<noteq> []" using B ds(1) by auto
    have "parseFloat (signStr neg @ ?ip @ ''.'' @ ?fp @ rest)
          = mkNum neg (?ip @ ?fp) (int (length ?ip) + exponentPart rest)"
      by (rule parseFloat_dotted[OF ipd(1) ipn ipd(2) st'])
    moreover have "mkNum neg (?ip @ ?fp) (int (length ?ip) + exponentPart rest) = Num neg ds n"
      using mk[of 0 0] B lt by (simp add: ex0 min_def)
    ultimately have "parseFloat (signStr neg @ ?ip @ ''.'' @ ?fp @ rest) = Num neg ds n" by simp
    then show ?thesis unfolding Num numToString_Num Let_def using B by simp
  next
    case C
    let ?fp = "replicate (nat (- n)) CHR ''0'' @ ds"
    have fpd: "list_all isDigit ?fp" using ds(2) by (simp add: replicate_zero_digits)
    have "parseFloat (signStr neg @ ''0'' @ ''.'' @ ?fp @ rest)
          = mkNum neg (''0'' @ ?fp) (int (length ''0'') + exponentPart rest)"
      by (rule parseFloat_dotted[OF _ _ fpd st']) (simp_all add: isDigit_def)
    moreover have "mkNum neg (''0'' @ ?fp) (int (length ''0'') + exponentPart rest) = Num neg ds n"
      using mk[of "Suc (nat (- n))" 0] C by (simp add: ex0)
    ultimately have "parseFloat (signStr neg @ ''0'' @ ''.'' @ ?fp @ rest) = Num neg ds n" by simp
    then show ?thesis unfolding Num numToString_Num Let_def using C by simp
  next
    case D
    have "parseFloat (signStr neg @ ds @ ?tail) = mkNum neg ds (int (length ds) + exponentPart ?tail)"
      by (rule parseFloat_plain[OF ds(2) ds(1) tailst])
    moreover have "mkNum neg ds (int (length ds) + exponentPart ?tail) = Num neg ds n"
      unfolding extail using mk[of 0 0] D by simp
    ultimately have "parseFloat (signStr neg @ ds @ ?tail) = Num neg ds n" by simp
    moreover have "numToString (Num neg ds n) @ rest = signStr neg @ ds @ ?tail"
      unfolding numToString_Num Let_def using D by (simp only: if_False if_True simp_thms append_assoc)
    ultimately show ?thesis unfolding Num by simp
  next
    case E
    have hdtl: "[hd ds] @ tl ds = ds" using ds(1) by simp
    have tld: "list_all isDigit (tl ds)" "list_all isDigit [hd ds]"
      using ds by (auto simp: list_all_iff dest: list.set_sel(2))
    have "parseFloat (signStr neg @ [hd ds] @ ''.'' @ tl ds @ ?tail)
          = mkNum neg ([hd ds] @ tl ds) (int (length [hd ds]) + exponentPart ?tail)"
      by (rule parseFloat_dotted[OF tld(2) _ tld(1) tailst']) simp
    moreover have "mkNum neg ([hd ds] @ tl ds) (int (length [hd ds]) + exponentPart ?tail) = Num neg ds n"
      unfolding hdtl extail using mk[of 0 0] by simp
    ultimately have "parseFloat (signStr neg @ [hd ds] @ ''.'' @ tl ds @ ?tail) = Num neg ds n" by simp
    moreover have "numToString (Num neg ds n) @ rest = signStr neg @ [hd ds] @ ''.'' @ tl ds @ ?tail"
      unfolding numToString_Num Let_def using E by (simp only: if_False if_True simp_thms append_assoc)
    ultimately show ?thesis unfolding Num by simp
  qed
qed

lemma strip_zeros_shape:
  fixes P :: "char \<Rightarrow> bool" and ds :: string
  defines "x \<equiv> dropWhile P ds"
  defines "sg \<equiv> rev (dropWhile P (rev x))"
  assumes ne: "sg \<noteq> []"
  shows "\<not> P (hd sg)" "\<not> P (last sg)" "set sg \<subseteq> set ds"
proof -
  have dne: "dropWhile P (rev x) \<noteq> []"
    using ne unfolding sg_def by (simp only: rev_is_Nil_conv not_False_eq_True)
  show "\<not> P (last sg)"
    unfolding sg_def using hd_dropWhile[OF dne] dne by (simp only: last_rev rev_rev_ident simp_thms)
  have xs: "x = sg @ rev (takeWhile P (rev x))"
  proof -
    have "sg @ rev (takeWhile P (rev x)) = rev (takeWhile P (rev x) @ dropWhile P (rev x))"
      unfolding sg_def by (simp only: rev_append)
    also have "\<dots> = x"
      by (simp only: takeWhile_dropWhile_id rev_rev_ident)
    finally show ?thesis by (rule sym)
  qed
  have xne: "x \<noteq> []"
  proof
    assume "x = []"
    then have "sg = []" unfolding sg_def by (simp only: rev.simps dropWhile.simps)
    with ne show False by blast
  qed
  have hx: "\<not> P (hd x)" using hd_dropWhile[of P ds] xne unfolding x_def by blast
  have "hd x = hd (sg @ rev (takeWhile P (rev x)))" using xs by (rule arg_cong)
  also have "\<dots> = hd sg" using ne by (rule hd_append2)
  finally have "hd x = hd sg" .
  then have "hd sg = hd x" by (rule sym)
  then show "\<not> P (hd sg)" using hx by (rule ssubst)
  have a: "set sg \<subseteq> set x"
  proof
    fix c assume "c \<in> set sg"
    then have "c \<in> set (dropWhile P (rev x))" unfolding sg_def by (simp only: set_rev)
    then have "c \<in> set (rev x)" by (rule set_dropWhileD)
    then show "c \<in> set x" by (simp only: set_rev)
  qed
  have b: "set x \<subseteq> set ds"
  proof
    fix c assume "c \<in> set x"
    then show "c \<in> set ds" unfolding x_def by (rule set_dropWhileD)
  qed
  from a b show "set sg \<subseteq> set ds" by (rule subset_trans)
qed

lemma mkNum_is_canonical:
  assumes "list_all isDigit ds"
  shows "canonical (mkNum neg ds n)"
proof -
  let ?z = "\<lambda>c. c = CHR ''0''"
  let ?sig = "rev (dropWhile ?z (rev (dropWhile ?z ds)))"
  show ?thesis
  proof (cases "?sig = []")
    case True
    then have "mkNum neg ds n = Zero" unfolding mkNum_def Let_def by (simp only: if_True simp_thms)
    then show ?thesis by (simp add: canonical_def)
  next
    case False
    then have m: "mkNum neg ds n = Num neg ?sig (n - int (length (takeWhile ?z ds)))"
      unfolding mkNum_def Let_def by (simp only: if_False simp_thms)
    have h: "hd ?sig \<noteq> CHR ''0''" and l: "last ?sig \<noteq> CHR ''0''" and s: "set ?sig \<subseteq> set ds"
      using strip_zeros_shape[OF False] by blast+
    have d: "list_all isDigit ?sig"
      using s assms unfolding list_all_iff by blast
    show ?thesis
      unfolding m canonical_def jsnum.case using False h l d by blast
  qed
qed

lemma takeWhile_all: "list_all P (takeWhile P xs)"
  by (induction xs) auto

lemma parseFloat_canonical: "canonical (parseFloat s)"
proof -
  obtain neg u where sp: "signPart (trimStart s) = (neg, u)" by (cases "signPart (trimStart s)")
  define ip where "ip = takeWhile isDigit u"
  define r1 where "r1 = dropWhile isDigit u"
  define fp where "fp = (if r1 \<noteq> [] \<and> hd r1 = CHR ''.'' then takeWhile isDigit (tl r1) else [])"
  define r2 where "r2 = (if r1 \<noteq> [] \<and> hd r1 = CHR ''.'' then dropWhile isDigit (tl r1) else r1)"
  have d: "list_all isDigit (ip @ fp)"
    by (simp add: ip_def fp_def takeWhile_all)
  have pf: "parseFloat s =
      (if prefix ''Infinity'' u then Infinity neg
       else if ip = [] \<and> fp = [] then NaN
       else mkNum neg (ip @ fp) (int (length ip) + exponentPart r2))"
    unfolding parseFloat_def sp Let_def prod.case ip_def r1_def fp_def r2_def by (rule refl)
  have c: "canonical (mkNum neg (ip @ fp) (int (length ip) + exponentPart r2))"
    by (rule mkNum_is_canonical[OF d])
  show ?thesis
    unfolding pf using c by (simp add: canonical_def)
qed

lemma parseFloatNum_parseFloat: "parseFloatNum (parseFloat s) = parseFloat s"
  unfolding parseFloatNum_def
  using parseFloat_numToString[OF parseFloat_canonical, of "[]" s] by (simp add: stops_def)

section \<open>The lab-value form\<close>

lemma labEntry_cases:
  "labEntry pat f s err code display unit sys =
     (if \<not> provided s then Inr []
      else if validLabValue s then Inr [createObservation pat f code display (parseFloat s) unit sys]
      else Inl (ValidationError err))"
  by (auto simp: labEntry_def validLabValue_def Let_def)

lemma createObservation_facts:
  "obs_status (createObservation pat f code display (parseFloat s) unit sys) = Some ''final''"
  "categoryCodes (createObservation pat f code display (parseFloat s) unit sys) = [[Some ''laboratory'']]"
  "codesOf (createObservation pat f code display (parseFloat s) unit sys) = [(Some ''http://loinc.org'', Some code)]"
  "valueOf (createObservation pat f code display (parseFloat s) unit sys) = Some (parseFloat s)"
  "unitOf (createObservation pat f code display (parseFloat s) unit sys) = Some unit"
  "unitSystemOf (createObservation pat f code display (parseFloat s) unit sys) = Some sys"
  by (simp_all add: createObservation_def categoryCodes_def codesOf_def codingsOf_def valueOf_def
        unitOf_def unitSystemOf_def parseFloatNum_parseFloat)




lemma collectObservations_cases:
  "collectObservations pat f =
     (if provided (gfr f) \<and> \<not> validLabValue (gfr f)
        then Inl (ValidationError ''GFR must be a valid positive number'')
      else if provided (hemoglobin f) \<and> \<not> validLabValue (hemoglobin f)
        then Inl (ValidationError ''Hemoglobin must be a valid positive number'')
      else Inr ((if provided (gfr f)
                 then [createObservation pat f ''33914-3'' ''Glomerular filtration rate/1.73 sq M.predicted''
                         (parseFloat (gfr f)) ''mL/min/1.73m2'' ''http://unitsofmeasure.org'']
                 else [])
              @ (if provided (hemoglobin f)
                 then [createObservation pat f ''718-7'' ''Hemoglobin [Mass/volume] in Blood''
                         (parseFloat (hemoglobin f)) ''g/dL'' ''http://unitsofmeasure.org'']
                 else [])))"
  by (simp add: collectObservations_def labEntry_cases)






section \<open>Error messages of a failed submission\<close>



















section \<open>Building an Observation and displaying it\<close>






section \<open>Displaying an Observation with components\<close>




section \<open>The consultation form\<close>








section \<open>What every created resource carries\<close>

lemma collectObservations_members:
  assumes "collectObservations pat f = Inr os" "obs \<in> set os"
  shows "\<exists>code display s unit. obs = createObservation pat f code display (parseFloat s) unit ''http://unitsofmeasure.org''"
  using assms unfolding collectObservations_cases by (auto split: if_splits) blast+

lemma handleSubmitLab_requests:
  "obs \<in> set (requests (handleSubmitLab fetch pat f)) \<Longrightarrow>
   \<exists>os. collectObservations pat f = Inr os \<and> obs \<in> set os"
  by (auto simp: handleSubmitLab_def Let_def split: sum.splits option.splits if_splits)

lemma handleSubmitConsultation_requests:
  "c \<in> set (requests (handleSubmitConsultation fetch pat cf)) \<Longrightarrow>
   c = createComposition pat cf \<and> cmp_section c \<noteq> []"
  by (auto simp: handleSubmitConsultation_def Let_def split: fetchOutcome.splits if_splits)

text \<open>
  Claim C7, as amended. Every Observation and every Composition this system creates (the
  bodies the two forms POST, and the blood pressure Observations and consultation Compositions
  of the seed script) has a subject reference to the target patient, and a performer
  (Observation) or author (Composition) reference to the fixed organization id. Every
  Observation the lab form creates has exactly one category, coded \<open>laboratory\<close>; every blood
  pressure Observation of the seed script has exactly one category, coded \<open>vital-signs\<close>.
  Every Composition created has a non-empty section list.
\<close>

theorem C7_created_resources:
  "(\<forall>obs \<in> set (requests (handleSubmitLab fetchO pat f)).
       subjectRef obs = Some (''Patient/'' @ tplString (p_id pat))
     \<and> performerRefs obs = [Some (''Organization/'' @ ORGANIZATION_ID)]
     \<and> categoryCodes obs = [[Some ''laboratory'']])
   \<and> (\<forall>c \<in> set (requests (handleSubmitConsultation fetchC pat cf)).
       r_reference (cmp_subject c) = Some (''Patient/'' @ tplString (p_id pat))
     \<and> map r_reference (cmp_author c) = [Some (''Organization/'' @ ORGANIZATION_ID)]
     \<and> cmp_section c \<noteq> [])
   \<and> (subjectRef (bpObservation clock patientId reading) = Some (''Patient/'' @ tplString patientId)
     \<and> performerRefs (bpObservation clock patientId reading) = [Some (''Organization/'' @ ORGANIZATION_ID)]
     \<and> categoryCodes (bpObservation clock patientId reading) = [[Some ''vital-signs'']])
   \<and> (r_reference (cmp_subject (seedComposition clock patientId entry)) = Some (''Patient/'' @ tplString patientId)
     \<and> map r_reference (cmp_author (seedComposition clock patientId entry)) = [Some (''Organization/'' @ ORGANIZATION_ID)]
     \<and> length (cmp_section (seedComposition clock patientId entry)) = 5)"
proof (intro conjI ballI)
  fix obs assume "obs \<in> set (requests (handleSubmitLab fetchO pat f))"
  then obtain code display s unit where
    o: "obs = createObservation pat f code display (parseFloat s) unit ''http://unitsofmeasure.org''"
    using handleSubmitLab_requests collectObservations_members by blast
  show "subjectRef obs = Some (''Patient/'' @ tplString (p_id pat))"
    unfolding o by (simp add: subjectRef_def createObservation_def subjectOf_def)
  show "performerRefs obs = [Some (''Organization/'' @ ORGANIZATION_ID)]"
    unfolding o by (simp add: performerRefs_def createObservation_def)
  show "categoryCodes obs = [[Some ''laboratory'']]"
    unfolding o by (rule createObservation_facts)
next
  fix c assume "c \<in> set (requests (handleSubmitConsultation fetchC pat cf))"
  then have c: "c = createComposition pat cf" "cmp_section c \<noteq> []"
    using handleSubmitConsultation_requests by blast+
  show "r_reference (cmp_subject c) = Some (''Patient/'' @ tplString (p_id pat))"
    unfolding c(1) by (simp add: createComposition_def subjectOf_def)
  show "map r_reference (cmp_author c) = [Some (''Organization/'' @ ORGANIZATION_ID)]"
    unfolding c(1) by (simp add: createComposition_def)
  show "cmp_section c \<noteq> []" by (rule c(2))
next
  show "subjectRef (bpObservation clock patientId reading) = Some (''Patient/'' @ tplString patientId)"
    by (simp add: subjectRef_def bpObservation_def)
  show "performerRefs (bpObservation clock patientId reading) = [Some (''Organization/'' @ ORGANIZATION_ID)]"
    by (simp add: performerRefs_def bpObservation_def)
  show "categoryCodes (bpObservation clock patientId reading) = [[Some ''vital-signs'']]"
    by (simp add: categoryCodes_def codingsOf_def bpObservation_def)
  show "r_reference (cmp_subject (seedComposition clock patientId entry)) = Some (''Patient/'' @ tplString patientId)"
    by (simp add: seedComposition_def)
  show "map r_reference (cmp_author (seedComposition clock patientId entry)) = [Some (''Organization/'' @ ORGANIZATION_ID)]"
    by (simp add: seedComposition_def)
  show "length (cmp_section (seedComposition clock patientId entry)) = 5"
    by (simp add: seedComposition_def)
qed


text \<open>The theorem at a lab form with both values and at a consultation form with an
  assessment, on a server that answers 201.\<close>

theorem C7_created_resources_witness:
  "requests (handleSubmitLab (answering created) johnDoe bothLabs) \<noteq> []
   \<and> map (\<lambda>obs. (subjectRef obs, performerRefs obs, categoryCodes obs))
         (requests (handleSubmitLab (answering created) johnDoe bothLabs))
       = [(Some ''Patient/1001'', [Some ''Organization/53655767''], [[Some ''laboratory'']]),
          (Some ''Patient/1001'', [Some ''Organization/53655767''], [[Some ''laboratory'']])]
   \<and> requests (handleSubmitConsultation (answering created) johnDoe stableOnly) \<noteq> []
   \<and> map (\<lambda>c. (r_reference (cmp_subject c), map r_reference (cmp_author c), cmp_section c \<noteq> []))
         (requests (handleSubmitConsultation (answering created) johnDoe stableOnly))
       = [(Some ''Patient/1001'', [Some ''Organization/53655767''], True)]"
proof -
  have p: "provided (gfr bothLabs)" "validLabValue (gfr bothLabs)"
          "provided (hemoglobin bothLabs)" "validLabValue (hemoglobin bothLabs)"
    by (simp_all add: bothLabs_def provided_def trim_def isWhiteSpace_def validLabValue_def isNaN_def
          ltZero_def parseFloat_def signPart_def trimStart_def isDigit_def mkNum_def exponentPart_def)
  define o1 where "o1 = createObservation johnDoe bothLabs ''33914-3'' ''Glomerular filtration rate/1.73 sq M.predicted''
                         (parseFloat (gfr bothLabs)) ''mL/min/1.73m2'' ''http://unitsofmeasure.org''"
  define o2 where "o2 = createObservation johnDoe bothLabs ''718-7'' ''Hemoglobin [Mass/volume] in Blood''
                         (parseFloat (hemoglobin bothLabs)) ''g/dL'' ''http://unitsofmeasure.org''"
  have c: "collectObservations johnDoe bothLabs = Inr [o1, o2]"
    unfolding collectObservations_cases o1_def o2_def using p by simp
  have okc: "ok created" by (simp add: ok_def created_def)
  have rq: "requests (handleSubmitLab (answering created) johnDoe bothLabs) = [o1, o2]"
    by (simp add: handleSubmitLab_def c answering_def okc)
  have a: "chiefComplaint stableOnly \<noteq> [] \<or> assessment stableOnly \<noteq> [] \<or> plan stableOnly \<noteq> []"
    by (simp add: stableOnly_def)
  have sn: "cmp_section (createComposition johnDoe stableOnly) \<noteq> []"
    by (simp add: createComposition_def sectionFor_def stableOnly_def)
  have rc: "requests (handleSubmitConsultation (answering created) johnDoe stableOnly)
            = [createComposition johnDoe stableOnly]"
    using a sn okc by (simp add: handleSubmitConsultation_def answering_def Let_def)
  have ids: "''Patient/'' @ tplString (p_id johnDoe) = ''Patient/1001''"
            "''Organization/'' @ ORGANIZATION_ID = ''Organization/53655767''"
    by (simp_all add: johnDoe_def tplString_def ORGANIZATION_ID_def)
  note t = C7_created_resources[where fetchO = "answering created" and fetchC = "answering created"
      and pat = johnDoe and f = bothLabs and cf = stableOnly and clock = "\<lambda>y. []" and patientId = None
      and reading = "hd bpReadings" and entry = "\<lparr>sc_yearsAgo = 0, sc_chiefComplaint = [], sc_history = [],
        sc_physicalExam = [], sc_assessment = [], sc_plan = []\<rparr>", unfolded rq rc ids]
  have l: "map (\<lambda>obs. (subjectRef obs, performerRefs obs, categoryCodes obs)) [o1, o2]
       = [(Some ''Patient/1001'', [Some ''Organization/53655767''], [[Some ''laboratory'']]),
          (Some ''Patient/1001'', [Some ''Organization/53655767''], [[Some ''laboratory'']])]"
    using t[THEN conjunct1] by simp
  have m: "map (\<lambda>c. (r_reference (cmp_subject c), map r_reference (cmp_author c), cmp_section c \<noteq> []))
         [createComposition johnDoe stableOnly]
       = [(Some ''Patient/1001'', [Some ''Organization/53655767''], True)]"
    using t[THEN conjunct2, THEN conjunct1] by simp
  show ?thesis unfolding rq rc using l m by simp
qed

text \<open>
  Claim C7 as stated fails for the Observations of the seed script: their single category is
  \<open>vital-signs\<close>, not \<open>laboratory\<close>.
\<close>

theorem C7_counterexample:
  "bpSample = bpObservation (\<lambda>y. ''2019-01-05T09:00:00.000Z'') (Some ''1001'') (hd bpReadings)
   \<and> categoryCodes bpSample = [[Some ''vital-signs'']]
   \<and> categoryCodes bpSample \<noteq> [[Some ''laboratory'']]"
  by (simp add: bpSample_def categoryCodes_def codingsOf_def bpObservation_def)

section \<open>The dosage of a medication\<close>

text \<open>
  Claim C10, as amended. For every MedicationRequest whose first dosage instruction has no text
  (absent or empty) but has a \<open>timing.repeat\<close>, the medication formatter returns as dosage the
  frequency text: the frequency (1 when absent), \<open>x per\<close>, and the period unit (\<open>day\<close> when
  absent).
\<close>

theorem C10_frequency_dosage:
  assumes "firstDosage m = Some d" and "\<not> truthy (d_text d)"
    and "d_timing d = Some t" and "repeat t = Some r"
  shows "\<exists>disp. getMedicationDisplay m = Inr disp
           \<and> md_dosage disp = numToString (numOr (frequency r) (ofNat 1)) @ ''x per '' @ orDefault (periodUnit r) ''day''"
  using assms
  by (simp add: getMedicationDisplay_def repeatOf_def frequencyText_def Let_def)


text \<open>The theorem at a request with timing 2 per \<open>d\<close> and no dosage text.\<close>

theorem C10_frequency_dosage_witness:
  "firstDosage twiceDaily
     = Some \<lparr>d_text = None, d_timing = Some \<lparr>repeat = Some \<lparr>frequency = Some (ofNat 2), periodUnit = Some ''d''\<rparr>\<rparr>\<rparr>
   \<and> \<not> truthy None
   \<and> (\<exists>disp. getMedicationDisplay twiceDaily = Inr disp \<and> md_dosage disp = ''2x per d'')"
proof -
  let ?r = "\<lparr>frequency = Some (ofNat 2), periodUnit = Some ''d''\<rparr>"
  let ?t = "\<lparr>repeat = Some ?r\<rparr>"
  let ?d = "\<lparr>d_text = None, d_timing = Some ?t\<rparr>"
  have f: "firstDosage twiceDaily = Some ?d" by (simp add: firstDosage_def twiceDaily_def)
  have n: "\<not> truthy None" by (simp add: truthy_def)
  have n': "\<not> truthy (d_text ?d)" using n by simp
  have v: "numToString (numOr (frequency ?r) (ofNat 1)) @ ''x per '' @ orDefault (periodUnit ?r) ''day'' = ''2x per d''"
    by code_simp
  from C10_frequency_dosage[OF f n', of ?t ?r]
  have "\<exists>disp. getMedicationDisplay twiceDaily = Inr disp \<and> md_dosage disp = ''2x per d''"
    unfolding v by simp
  with f n show ?thesis by (intro conjI)
qed

text \<open>
  Claim C10 as stated says the frequency text is never returned for such a request. The
  condition of the conditional expression is \<open>text || repeat\<close>, which holds when \<open>repeat\<close>
  exists, so the frequency text is what the formatter returns.
\<close>

theorem C10_counterexample:
  "firstDosage twiceDaily
     = Some \<lparr>d_text = None, d_timing = Some \<lparr>repeat = Some \<lparr>frequency = Some (ofNat 2), periodUnit = Some ''d''\<rparr>\<rparr>\<rparr>
   \<and> getMedicationDisplay twiceDaily
     = Inr \<lparr>md_name = ''Aspirin'', md_status = ''active'', md_intent = ''order'', md_dosage = ''2x per d''\<rparr>"
  by code_simp

section \<open>The order of deletion in the cleanup phase\<close>


lemma searchesOf_append [simp]: "searchesOf (xs @ ys) = searchesOf xs @ searchesOf ys"
  by (induction xs rule: searchesOf.induct) auto




















section \<open>Formatting a date\<close>

text \<open>
  Claim C1. What \<open>formatDate\<close> returns, for every input: \<open>N/A\<close> for an absent (or empty)
  date string; for a string the runtime parses, its \<open>en-US\<close> rendering with numeric year,
  short month and numeric day; and for a string the runtime cannot parse, the text
  \<open>Invalid Date\<close>. The claim says that a malformed string is returned unchanged; that is what
  the \<open>catch\<close> branch of the source would do, but no exception is thrown for it to catch.
\<close>

theorem C1_formatDate:
  "formatDate parse render None = ''N/A''
   \<and> formatDate parse render (Some []) = ''N/A''
   \<and> (s \<noteq> [] \<longrightarrow> parse s = Some t \<longrightarrow> formatDate parse render (Some s) = render t)
   \<and> (s \<noteq> [] \<longrightarrow> parse s = None \<longrightarrow> formatDate parse render (Some s) = ''Invalid Date'')"
  by (simp add: formatDate_def toLocaleDateString_def)

text \<open>The theorem at the strings \<open>not-a-date\<close> and \<open>2024-01-05\<close>, with the sample runtime.\<close>

theorem C1_formatDate_witness:
  "''not-a-date'' \<noteq> [] \<and> dateOnlyParse ''not-a-date'' = None
   \<and> formatDate dateOnlyParse utcShortDate (Some ''not-a-date'') = ''Invalid Date''
   \<and> formatDate dateOnlyParse utcShortDate (Some ''not-a-date'') \<noteq> ''not-a-date''
   \<and> ''2024-01-05'' \<noteq> [] \<and> dateOnlyParse ''2024-01-05'' = Some 1704412800000
   \<and> formatDate dateOnlyParse utcShortDate (Some ''2024-01-05'') = ''Jan 5, 2024''"
proof -
  have n: "''not-a-date'' \<noteq> []" "''2024-01-05'' \<noteq> []" by simp_all
  have p: "dateOnlyParse ''not-a-date'' = None" by code_simp
  have q: "dateOnlyParse ''2024-01-05'' = Some 1704412800000" by code_simp
  have r: "utcShortDate 1704412800000 = ''Jan 5, 2024''" by code_simp
  note t = C1_formatDate[where parse = dateOnlyParse and render = utcShortDate]
  have a: "formatDate dateOnlyParse utcShortDate (Some ''not-a-date'') = ''Invalid Date''"
    by (rule t[where s = "''not-a-date''" and t = 0, THEN conjunct2, THEN conjunct2, THEN conjunct2, THEN mp, OF n(1), THEN mp, OF p])
  have b: "formatDate dateOnlyParse utcShortDate (Some ''2024-01-05'') = utcShortDate 1704412800000"
    by (rule t[where s = "''2024-01-05''" and t = 1704412800000, THEN conjunct2, THEN conjunct2, THEN conjunct1, THEN mp, OF n(2), THEN mp, OF q])
  have c: "formatDate dateOnlyParse utcShortDate (Some ''not-a-date'') \<noteq> ''not-a-date''"
    unfolding a by simp
  show ?thesis unfolding b r by (intro conjI n p q a c refl)
qed

end
